theory Spec2Isabelle
  imports Complex_Main "HOL-Library.AList" "HOL-Library.Word"
begin

section \<open>Python values shared by the route handlers\<close>

text \<open>
  The handlers of this repository build and return dictionaries whose values are
  strings, floats or \<open>None\<close>.  A Python \<open>float\<close> is an IEEE 754 binary64 number and
  is modelled as its 64-bit pattern, so that every float, the two zeros, the
  infinities and the NaNs included, is a value of the model.  A dictionary is an
  association list in insertion order; \<open>dict.update({k: v})\<close> is
  \<open>AList.update k v\<close>, which overwrites an existing key in place and appends a new
  one.
\<close>

type_synonym pyfloat = "64 word"

text \<open>\<open>0.0\<close> and \<open>-0.0\<close>: all bits clear, and the sign bit alone.\<close>

definition pos_zero :: pyfloat where
  "pos_zero = 0"

definition neg_zero :: pyfloat where
  "neg_zero = 0x8000000000000000"

text \<open>
  \<open>x == 0.0\<close>: IEEE equality holds between the two zeros and between nothing else and
  a zero (a NaN equals nothing).
\<close>

definition float_eq_zero :: "pyfloat \<Rightarrow> bool" where
  "float_eq_zero x = (x = pos_zero \<or> x = neg_zero)"

datatype pyval = PNone | PStr string | PFloat pyfloat

type_synonym pydict = "(string \<times> pyval) list"

text \<open>The exceptions a handler can meet: an ill-typed operation, a rejected model.\<close>

datatype py_error = TypeError | ValidationError

definition opt_str :: "string option \<Rightarrow> pyval" where
  "opt_str x = (case x of None \<Rightarrow> PNone | Some s \<Rightarrow> PStr s)"

definition opt_float :: "pyfloat option \<Rightarrow> pyval" where
  "opt_float x = (case x of None \<Rightarrow> PNone | Some f \<Rightarrow> PFloat f)"

section \<open>iv\_request\_body.py\<close>

text \<open>
  \<^verbatim>\<open>
  class Item(BaseModel):
      name: str
      description: str | None = None
      price: float
      tax: float | None = None
  \<close>
\<close>

record Item =
  name :: string
  description :: "string option"
  price :: pyfloat
  tax :: "pyfloat option"

text \<open>\<open>item.model_dump()\<close>: the fields in declaration order.\<close>

definition Item_model_dump :: "Item \<Rightarrow> pydict" where
  "Item_model_dump item =
     [(''name'', PStr (name item)),
      (''description'', opt_str (description item)),
      (''price'', PFloat (price item)),
      (''tax'', opt_float (tax item))]"

text \<open>
  Python truthiness of a value of type \<open>float | None\<close>, as tested by \<open>if item.tax:\<close>.
  \<open>None\<close> is falsy, and a float is falsy exactly when it equals \<open>0.0\<close>.
\<close>

definition truthy_opt_float :: "pyfloat option \<Rightarrow> bool" where
  "truthy_opt_float x = (case x of None \<Rightarrow> False | Some f \<Rightarrow> \<not> float_eq_zero f)"

text \<open>
  \<open>item.price + item.tax\<close>: adding \<open>None\<close> to a float raises \<open>TypeError\<close>; adding two
  floats is the machine's binary64 addition, with its rounding, overflow and NaN
  rules.  That addition is not part of the repository; it is the parameter \<open>fadd\<close>,
  of which nothing is assumed.
\<close>

definition add_opt_float ::
  "(pyfloat \<Rightarrow> pyfloat \<Rightarrow> pyfloat) \<Rightarrow> pyfloat \<Rightarrow> pyfloat option \<Rightarrow> py_error + pyfloat" where
  "add_opt_float fadd x y = (case y of None \<Rightarrow> Inl TypeError | Some t \<Rightarrow> Inr (fadd x t))"

text \<open>
  \<^verbatim>\<open>
  async def create_item(item: Item):
      item_dict = item.model_dump()
      if item.tax:
          price_with_tax = item.price + item.tax
          item_dict.update({"price_with_tax": price_with_tax})
      return item_dict
  \<close>
\<close>

definition create_item :: "(pyfloat \<Rightarrow> pyfloat \<Rightarrow> pyfloat) \<Rightarrow> Item \<Rightarrow> py_error + pydict" where
  "create_item fadd item =
     (let item_dict = Item_model_dump item in
      if truthy_opt_float (tax item)
      then (case add_opt_float fadd (price item) (tax item) of
              Inl e \<Rightarrow> Inl e
            | Inr price_with_tax \<Rightarrow>
                Inr (AList.update ''price_with_tax'' (PFloat price_with_tax) item_dict))
      else Inr item_dict)"

section \<open>xiv\_handling\_errors.py\<close>

text \<open>
  The keys that occur in this file are the string keys of the module-level dictionary
  and the integer path parameter that is looked up in it.  Python compares an \<open>int\<close>
  and a \<open>str\<close> as unequal, which is what the distinct constructors give.
\<close>

datatype pykey = KInt int | KStr string

record HTTPException =
  status_code :: int
  detail :: string
  headers :: "(string \<times> string) list"

text \<open>\<^verbatim>\<open>items = {"foo": "The Foo Wrestlers"}\<close>\<close>

definition items_handling_errors :: "(pykey \<times> string) list" where
  "items_handling_errors = [(KStr ''foo'', ''The Foo Wrestlers'')]"

text \<open>
  \<^verbatim>\<open>
  async def read_item(item_id: Annotated[int, Path(gt=2)]):
      if item_id not in items:
          raise HTTPException(status_code=404, detail="Item not found",
                              headers={"X-Error": "There goes my error"})
      return {"item": items[item_id]}
  \<close>
  The membership test and the subscript are the same lookup, so the subscript after a
  successful test cannot raise \<open>KeyError\<close>.
\<close>

definition read_item_handling_errors :: "int \<Rightarrow> HTTPException + (string \<times> string) list" where
  "read_item_handling_errors item_id =
     (case map_of items_handling_errors (KInt item_id) of
        None \<Rightarrow>
          Inl \<lparr>status_code = 404, detail = ''Item not found'',
               headers = [(''X-Error'', ''There goes my error'')]\<rparr>
      | Some v \<Rightarrow> Inr [(''item'', v)])"

section \<open>xii\_extra\_models.py\<close>

















section \<open>The schema validation and coercion engine\<close>

text \<open>
  The route handlers above leave validation to the web framework: the repository
  declares schemas (\<open>Item\<close>, \<open>FilterParams\<close>) and has no validation code of its
  own.  The engine below is therefore written from the specification (its sections
  3, 4.1 and 7), one definition per notion it names.
\<close>

subsection \<open>Data model\<close>

text \<open>
  Modelled from the spec: the value of a date-time scalar.  The specification names the
  primitive type and nothing of its structure; an instant is a number of time units
  from a fixed origin.
\<close>

datatype datetime = DateTime int

text \<open>
  Modelled from the spec: the primitive type tag of a scalar Schema Node (the
  repository has no schema type; section 3 lists string, integer, float, boolean,
  date-time and URL-string).
\<close>

datatype prim = TString | TInteger | TFloat | TBoolean | TDateTime | TUrl

text \<open>
  Modelled from the spec: Raw Input (section 3), "untyped data (mapping, sequence,
  string, number, boolean, null)".  A number is an integer or a float, since the
  coercion table widens integers to floats.  The absent sentinel, "distinct from
  null", is not a raw value: an input that may be absent is a \<open>raw option\<close>, and
  \<open>None\<close> is the sentinel.  A float is a real number.
\<close>

datatype raw =
    RNull | RBool bool | RInt int | RFloat real | RStr string
  | RSeq "raw list" | RMap "(string \<times> raw) list"

text \<open>
  Modelled from the spec: the coerced, typed \<open>Value\<close> of a Validation Outcome.  A
  URL-string is a string value; a set is the list of its distinct members; a map is
  the list of its key-value pairs and an object the list of its fields, in the order
  in which validation produced them.
\<close>

datatype val =
    VNull | VBool bool | VInt int | VFloat real | VStr string | VDateTime datetime
  | VList "val list" | VSet "val list" | VMap "(val \<times> val) list" | VObj "(string \<times> val) list"

text \<open>
  Modelled from the spec: a constraint name with its parameter (section 3 names
  \<open>min_length\<close>, \<open>max_length\<close>, \<open>pattern\<close>, \<open>ge\<close>, \<open>gt\<close>, \<open>le\<close>, \<open>lt\<close> and
  \<open>multiple_of\<close>).
\<close>

datatype constraint =
    MinLength nat | MaxLength nat
  | Ge real | Gt real | Le real | Lt real | MultipleOf real
  | Pattern string

text \<open>
  Modelled from the spec: \<open>extra_fields_policy\<close> of an object node.  The specification
  gives a meaning to \<open>forbid\<close> only; under the other policy undeclared keys are passed
  over.
\<close>

datatype extra_fields_policy = Forbid | Ignore

text \<open>
  Modelled from the spec: the Schema Node (section 3), a tagged variant as section 9
  asks.  An object maps each field name, in declaration order, to its node, its
  required flag and its default value, if one is declared.  The constraint mapping is
  the list of constraints of the kinds whose values the constraints speak about
  (scalars and collections).
\<close>

datatype schema =
    Scalar prim "constraint list"
  | Optional schema
  | ListOf schema "constraint list"
  | SetOf schema "constraint list"
  | MapOf schema schema "constraint list"
  | Object "(string \<times> schema \<times> bool \<times> val option) list" extra_fields_policy
  | Union "schema list"
  | Enum "raw list"
  | Literal "raw list"

text \<open>
  Modelled from the spec: one step of a location path, "field names / indices from the
  document root".
\<close>

datatype loc = Name string | Index nat

type_synonym path = "loc list"

text \<open>
  Modelled from the spec: the observed kind of a raw value and the expected kind of a
  node, which \<open>TypeCoercionError\<close> carries.
\<close>

datatype raw_kind = KNull | KBoolean | KInteger | KFloat | KString | KSequence | KMapping

datatype expected = EScalar prim | EList | ESet | EMap | EObject | EEnum | ELiteral

text \<open>
  Modelled from the spec: the error kinds of section 7 that a call can return, each
  with its location path.  The human-readable message of a \<open>FieldError\<close> is a
  rendering of these data and is left out.
\<close>

datatype field_error =
    MissingRequiredField path
  | TypeCoercionError path expected raw_kind
  | ConstraintViolation path constraint val
  | UnexpectedField path
  | NoUnionVariantMatched path "field_error list list"
  | TooDeeplyNested path

text \<open>
  Modelled from the spec: the Validation Outcome, "either a Value or a non-empty
  ordered sequence of FieldError records"; \<open>Inl\<close> is the error outcome.
\<close>

type_synonym outcome = "field_error list + val"

text \<open>
  Modelled from the spec: what the specification leaves to the implementer, taken as
  parameters: the maximum recursion depth, the pattern language, and the accepted text
  forms of date-times and URLs.
\<close>

record config =
  max_depth :: nat
  pattern_matches :: "string \<Rightarrow> string \<Rightarrow> bool"
  parse_datetime :: "string \<Rightarrow> datetime option"
  is_url :: "string \<Rightarrow> bool"

subsection \<open>Type coercion (section 4.1, step 2)\<close>

text \<open>Modelled from the spec: "the raw value's observed kind".\<close>

fun kind_of_raw :: "raw \<Rightarrow> raw_kind" where
  "kind_of_raw RNull = KNull"
| "kind_of_raw (RBool _) = KBoolean"
| "kind_of_raw (RInt _) = KInteger"
| "kind_of_raw (RFloat _) = KFloat"
| "kind_of_raw (RStr _) = KString"
| "kind_of_raw (RSeq _) = KSequence"
| "kind_of_raw (RMap _) = KMapping"

text \<open>
  Modelled from the spec: reading "a canonical base-10 integer literal with optional
  leading minus, no thousands separators": decimal digits only, at least one, after an
  optional minus sign.
\<close>

definition digit_val :: "char \<Rightarrow> nat option" where
  "digit_val c =
     map_of [(CHR ''0'', 0), (CHR ''1'', 1), (CHR ''2'', 2), (CHR ''3'', 3), (CHR ''4'', 4),
             (CHR ''5'', 5), (CHR ''6'', 6), (CHR ''7'', 7), (CHR ''8'', 8), (CHR ''9'', 9)] c"

fun parse_digits :: "string \<Rightarrow> nat \<Rightarrow> nat option" where
  "parse_digits [] acc = Some acc"
| "parse_digits (c # cs) acc =
     (case digit_val c of None \<Rightarrow> None | Some d \<Rightarrow> parse_digits cs (10 * acc + d))"

definition parse_int :: "string \<Rightarrow> int option" where
  "parse_int s =
     (case s of
        [] \<Rightarrow> None
      | c # cs \<Rightarrow>
          if c = CHR ''-''
          then (if cs = [] then None else map_option (\<lambda>n. - int n) (parse_digits cs 0))
          else map_option int (parse_digits s 0))"

text \<open>
  Modelled from the spec: the "fixed, total coercion table" per scalar kind.  Its stated
  entries: numeric strings become integers only as integer literals, floats accept
  integer input by widening, booleans accept the native boolean type and the literal
  tokens \<open>true\<close> and \<open>false\<close>.  Every source form the table does not name is
  rejected (\<open>None\<close>).
\<close>

definition coerce :: "config \<Rightarrow> prim \<Rightarrow> raw \<Rightarrow> val option" where
  "coerce cfg p raw =
     (case p of
        TString \<Rightarrow> (case raw of RStr s \<Rightarrow> Some (VStr s) | _ \<Rightarrow> None)
      | TInteger \<Rightarrow>
          (case raw of
             RInt i \<Rightarrow> Some (VInt i)
           | RStr s \<Rightarrow> map_option VInt (parse_int s)
           | _ \<Rightarrow> None)
      | TFloat \<Rightarrow>
          (case raw of
             RFloat f \<Rightarrow> Some (VFloat f)
           | RInt i \<Rightarrow> Some (VFloat (of_int i))
           | _ \<Rightarrow> None)
      | TBoolean \<Rightarrow>
          (case raw of
             RBool b \<Rightarrow> Some (VBool b)
           | RStr s \<Rightarrow>
               if s = ''true'' then Some (VBool True)
               else if s = ''false'' then Some (VBool False)
               else None
           | _ \<Rightarrow> None)
      | TDateTime \<Rightarrow>
          (case raw of RStr s \<Rightarrow> map_option VDateTime (parse_datetime cfg s) | _ \<Rightarrow> None)
      | TUrl \<Rightarrow>
          (case raw of RStr s \<Rightarrow> if is_url cfg s then Some (VStr s) else None | _ \<Rightarrow> None))"

subsection \<open>Constraint checking (section 4.1, step 3)\<close>

text \<open>
  Modelled from the spec: what a length or size constraint measures.  A string is the
  list of its characters, so its length counts characters.
\<close>

fun length_of :: "val \<Rightarrow> nat option" where
  "length_of (VStr s) = Some (length s)"
| "length_of (VList xs) = Some (length xs)"
| "length_of (VSet xs) = Some (length xs)"
| "length_of (VMap ps) = Some (length ps)"
| "length_of _ = None"

text \<open>
  Modelled from the spec: what a numeric bound compares, "the coerced numeric type with
  no implicit rounding": an integer is compared as the number it is.
\<close>

fun number_of :: "val \<Rightarrow> real option" where
  "number_of (VInt i) = Some (of_int i)"
| "number_of (VFloat f) = Some f"
| "number_of _ = None"

text \<open>Modelled from the spec: \<open>multiple_of\<close>; only zero is a multiple of zero.\<close>

definition is_multiple :: "real \<Rightarrow> real \<Rightarrow> bool" where
  "is_multiple x m = (if m = 0 then x = 0 else x / m \<in> \<int>)"

text \<open>Modelled from the spec: the name of a constraint in the node's mapping.\<close>

fun cname :: "constraint \<Rightarrow> string" where
  "cname (MinLength _) = ''min_length''"
| "cname (MaxLength _) = ''max_length''"
| "cname (Ge _) = ''ge''"
| "cname (Gt _) = ''gt''"
| "cname (Le _) = ''le''"
| "cname (Lt _) = ''lt''"
| "cname (MultipleOf _) = ''multiple_of''"
| "cname (Pattern _) = ''pattern''"

text \<open>
  Modelled from the spec: the checker of each constraint (section 9: "name, parameter,
  checker function").  A constraint that does not speak about the value's type holds.
\<close>

fun satisfies :: "config \<Rightarrow> constraint \<Rightarrow> val \<Rightarrow> bool" where
  "satisfies cfg (MinLength n) v = (case length_of v of None \<Rightarrow> True | Some l \<Rightarrow> n \<le> l)"
| "satisfies cfg (MaxLength n) v = (case length_of v of None \<Rightarrow> True | Some l \<Rightarrow> l \<le> n)"
| "satisfies cfg (Ge b) v = (case number_of v of None \<Rightarrow> True | Some x \<Rightarrow> b \<le> x)"
| "satisfies cfg (Gt b) v = (case number_of v of None \<Rightarrow> True | Some x \<Rightarrow> b < x)"
| "satisfies cfg (Le b) v = (case number_of v of None \<Rightarrow> True | Some x \<Rightarrow> x \<le> b)"
| "satisfies cfg (Lt b) v = (case number_of v of None \<Rightarrow> True | Some x \<Rightarrow> x < b)"
| "satisfies cfg (MultipleOf m) v =
     (case number_of v of None \<Rightarrow> True | Some x \<Rightarrow> is_multiple x m)"
| "satisfies cfg (Pattern p) v = (case v of VStr s \<Rightarrow> pattern_matches cfg p s | _ \<Rightarrow> True)"

text \<open>
  Modelled from the spec: the fixed order of evaluation, "length/size constraints before
  numeric range constraints before pattern constraints".
\<close>

definition check_order :: "string list" where
  "check_order =
     [''min_length'', ''max_length'', ''ge'', ''gt'', ''le'', ''lt'', ''multiple_of'', ''pattern'']"

text \<open>
  Modelled from the spec: "collecting every failing constraint as a separate
  ConstraintViolation error rather than stopping at the first".
\<close>

definition check_constraints :: "config \<Rightarrow> constraint list \<Rightarrow> val \<Rightarrow> path \<Rightarrow> field_error list" where
  "check_constraints cfg cs v path =
     concat (map (\<lambda>n. case find (\<lambda>c. cname c = n) cs of
                         None \<Rightarrow> []
                       | Some c \<Rightarrow> if satisfies cfg c v then [] else [ConstraintViolation path c v])
                 check_order)"

text \<open>Modelled from the spec: the outcome of a node whose coercion succeeded.\<close>

definition checked :: "config \<Rightarrow> constraint list \<Rightarrow> path \<Rightarrow> val \<Rightarrow> outcome" where
  "checked cfg cs path v =
     (case check_constraints cfg cs v path of [] \<Rightarrow> Inr v | e # es \<Rightarrow> Inl (e # es))"

subsection \<open>Structural recursion and aggregation (section 4.1, steps 1, 4 and 5)\<close>

text \<open>
  Modelled from the spec: the value of an accepted raw value of an \<open>enum\<close> or \<open>literal\<close>
  node, which is the raw value itself, typed.
\<close>

fun val_of_raw :: "raw \<Rightarrow> val" where
  "val_of_raw RNull = VNull"
| "val_of_raw (RBool b) = VBool b"
| "val_of_raw (RInt i) = VInt i"
| "val_of_raw (RFloat f) = VFloat f"
| "val_of_raw (RStr s) = VStr s"
| "val_of_raw (RSeq rs) = VList (map val_of_raw rs)"
| "val_of_raw (RMap kvs) = VObj (map (\<lambda>(k, r). (k, val_of_raw r)) kvs)"

text \<open>
  Modelled from the spec: aggregation (step 5).  If any part produced errors the
  outcome is the concatenation of all collected errors, in order; otherwise it is the
  list of the parts' values.
\<close>

fun aggregate :: "(field_error list + 'a) list \<Rightarrow> field_error list + 'a list" where
  "aggregate [] = Inr []"
| "aggregate (Inr v # os) =
     (case aggregate os of Inl es \<Rightarrow> Inl es | Inr vs \<Rightarrow> Inr (v # vs))"
| "aggregate (Inl es # os) =
     (case aggregate os of Inl es' \<Rightarrow> Inl (es @ es') | Inr vs \<Rightarrow> Inl es)"

text \<open>Modelled from the spec: the outcome of one key-value pair of a map.\<close>

fun pair_outcome :: "outcome \<Rightarrow> outcome \<Rightarrow> field_error list + (val \<times> val)" where
  "pair_outcome (Inr k) (Inr v) = Inr (k, v)"
| "pair_outcome (Inl es) (Inr v) = Inl es"
| "pair_outcome (Inr k) (Inl es) = Inl es"
| "pair_outcome (Inl es) (Inl es') = Inl (es @ es')"

text \<open>
  Modelled from the spec: presence resolution (step 1) of a node that has no declared
  default: an \<open>optional\<close> node becomes null, any other one is a missing required
  field.
\<close>

definition presence :: "schema \<Rightarrow> path \<Rightarrow> outcome" where
  "presence s path = (case s of Optional _ \<Rightarrow> Inr VNull | _ \<Rightarrow> Inl [MissingRequiredField path])"

text \<open>
  Modelled from the spec: "any raw key not present in the declared field set emits
  UnexpectedField", one error per such key, in input order, located at the key.
\<close>

definition unexpected ::
  "(string \<times> schema \<times> bool \<times> val option) list \<Rightarrow> (string \<times> raw) list \<Rightarrow> path
     \<Rightarrow> field_error list" where
  "unexpected fs kvs path =
     map (\<lambda>k. UnexpectedField (path @ [Name k]))
         (filter (\<lambda>k. k \<notin> set (map fst fs)) (map fst kvs))"

text \<open>
  The size of the field list of an object bounds the sizes of the fields' nodes; the
  recursion below is on the schema.
\<close>

lemma size_fields_le:
  "size_list (\<lambda>f. size (fst (snd f))) (fs :: (string \<times> schema \<times> bool \<times> val option) list)
     \<le> size_list (size_prod (\<lambda>x. 0) (size_prod size (\<lambda>x. 0))) fs"
  by (induction fs) auto

text \<open>
  Modelled from the spec: \<open>validate(schema, raw, path)\<close>, the recursive descent of
  section 4.1, which the repository does not implement (its handlers receive
  already validated arguments from the framework).  \<open>validate\<close> guards the recursion depth, which is the length of the
  location path, and resolves presence; \<open>descend\<close> coerces, checks and recurses by
  the kind of the node; \<open>validate_fields\<close> walks the declared fields of an object, a
  missing one taking its declared default (unchecked) or null when it is not
  required; \<open>validate_union\<close> tries the candidates in declared order and keeps the
  errors of those that failed.  Errors of the declared fields come before those of
  undeclared keys.
\<close>

function (sequential)
    validate :: "config \<Rightarrow> schema \<Rightarrow> raw option \<Rightarrow> path \<Rightarrow> outcome"
and descend :: "config \<Rightarrow> schema \<Rightarrow> raw \<Rightarrow> path \<Rightarrow> outcome"
and validate_fields ::
  "config \<Rightarrow> (string \<times> schema \<times> bool \<times> val option) list \<Rightarrow> (string \<times> raw) list \<Rightarrow> path
     \<Rightarrow> outcome list"
and validate_union :: "config \<Rightarrow> schema list \<Rightarrow> raw \<Rightarrow> path \<Rightarrow> field_error list list \<Rightarrow> outcome"
where
  "validate cfg s raw path =
     (if max_depth cfg < length path then Inl [TooDeeplyNested path]
      else case raw of
             None \<Rightarrow> presence s path
           | Some r \<Rightarrow> descend cfg s r path)"
| "descend cfg (Scalar p cs) raw path =
     (case coerce cfg p raw of
        None \<Rightarrow> Inl [TypeCoercionError path (EScalar p) (kind_of_raw raw)]
      | Some v \<Rightarrow> checked cfg cs path v)"
| "descend cfg (Optional s) raw path =
     (if raw = RNull then Inr VNull else validate cfg s (Some raw) path)"
| "descend cfg (ListOf s cs) raw path =
     (case raw of
        RSeq rs \<Rightarrow>
          (case aggregate (map (\<lambda>(i, r). validate cfg s (Some r) (path @ [Index i]))
                             (zip [0..<length rs] rs)) of
             Inl es \<Rightarrow> Inl es
           | Inr vs \<Rightarrow> checked cfg cs path (VList vs))
      | _ \<Rightarrow> Inl [TypeCoercionError path EList (kind_of_raw raw)])"
| "descend cfg (SetOf s cs) raw path =
     (case raw of
        RSeq rs \<Rightarrow>
          (case aggregate (map (\<lambda>(i, r). validate cfg s (Some r) (path @ [Index i]))
                             (zip [0..<length rs] rs)) of
             Inl es \<Rightarrow> Inl es
           | Inr vs \<Rightarrow> checked cfg cs path (VSet (remdups vs)))
      | _ \<Rightarrow> Inl [TypeCoercionError path ESet (kind_of_raw raw)])"
| "descend cfg (MapOf ks vs cs) raw path =
     (case raw of
        RMap kvs \<Rightarrow>
          (case aggregate (map (\<lambda>(k, r). pair_outcome
                                    (validate cfg ks (Some (RStr k)) (path @ [Name k]))
                                    (validate cfg vs (Some r) (path @ [Name k])))
                             kvs) of
             Inl es \<Rightarrow> Inl es
           | Inr ps \<Rightarrow> checked cfg cs path (VMap ps))
      | _ \<Rightarrow> Inl [TypeCoercionError path EMap (kind_of_raw raw)])"
| "descend cfg (Object fs policy) raw path =
     (case raw of
        RMap kvs \<Rightarrow>
          (let extras = (if policy = Forbid then unexpected fs kvs path else [])
           in case aggregate (validate_fields cfg fs kvs path) of
                Inl es \<Rightarrow> Inl (es @ extras)
              | Inr vs \<Rightarrow>
                  (case extras of
                     [] \<Rightarrow> Inr (VObj (zip (map fst fs) vs))
                   | e # es \<Rightarrow> Inl (e # es)))
      | _ \<Rightarrow> Inl [TypeCoercionError path EObject (kind_of_raw raw)])"
| "descend cfg (Union cands) raw path = validate_union cfg cands raw path []"
| "descend cfg (Enum accepted) raw path =
     (if raw \<in> set accepted then Inr (val_of_raw raw)
      else Inl [TypeCoercionError path EEnum (kind_of_raw raw)])"
| "descend cfg (Literal accepted) raw path =
     (if raw \<in> set accepted then Inr (val_of_raw raw)
      else Inl [TypeCoercionError path ELiteral (kind_of_raw raw)])"
| "validate_fields cfg [] kvs path = []"
| "validate_fields cfg ((n, s, required, dflt) # fs) kvs path =
     (case map_of kvs n of
        Some r \<Rightarrow> validate cfg s (Some r) (path @ [Name n])
      | None \<Rightarrow>
          (case dflt of
             Some d \<Rightarrow> Inr d
           | None \<Rightarrow> if required then validate cfg s None (path @ [Name n]) else Inr VNull))
     # validate_fields cfg fs kvs path"
| "validate_union cfg [] raw path tried = Inl [NoUnionVariantMatched path tried]"
| "validate_union cfg (c # cands) raw path tried =
     (case validate cfg c (Some raw) path of
        Inr v \<Rightarrow> Inr v
      | Inl es \<Rightarrow> validate_union cfg cands raw path (tried @ [es]))"
  by pat_completeness auto

termination
  apply (relation
    "(\<lambda>x. case x of
            Inl (Inl (cfg, s, r, p)) \<Rightarrow> size s
          | Inl (Inr (cfg, s, r, p)) \<Rightarrow> size s
          | Inr (Inl (cfg, fs, kvs, p)) \<Rightarrow> size_list (\<lambda>f. size (fst (snd f))) fs
          | Inr (Inr (cfg, cs, r, p, t)) \<Rightarrow> size_list size cs) <*mlex*>
     (\<lambda>x. case x of Inl (Inl _) \<Rightarrow> Suc 0 | _ \<Rightarrow> 0) <*mlex*> {}")
  apply (auto simp add: wf_mlex mlex_prod_def less_Suc_eq_le size_fields_le)
  done

text \<open>
  Modelled from the spec: the schema of the fail-slow example of section 8,
  \<open>{name: string (required), price: float (required, gt=0), tax: float (optional)}\<close>.
\<close>

definition item_schema :: schema where
  "item_schema =
     Object [(''name'', Scalar TString [], True, None),
             (''price'', Scalar TFloat [Gt 0], True, None),
             (''tax'', Scalar TFloat [], False, None)] Ignore"

text \<open>
  A configuration for running the engine on examples: 64 levels, a pattern that
  matches itself only, no date-time text accepted, every string a URL.
\<close>

definition example_config :: config where
  "example_config =
     \<lparr>max_depth = 64, pattern_matches = (\<lambda>p s. p = s), parse_datetime = (\<lambda>s. None),
      is_url = (\<lambda>s. True)\<rparr>"

subsection \<open>A schema the repository declares\<close>

text \<open>
  vii\_query\_parameter\_models.py declares a model that forbids extra fields:
  \<^verbatim>\<open>
  class FilterParams(BaseModel):
      model_config = {"extra": "forbid"}
      limit: int = Field(100, gt=0, le=100)
      offset: int = Field(0, ge=0)
      order_by: Literal["created_at", "updated_at"] = "created_at"
      tags: list[str] = []
  \<close>
\<close>

definition FilterParams_schema :: schema where
  "FilterParams_schema =
     Object [(''limit'', Scalar TInteger [Gt 0, Le 100], False, Some (VInt 100)),
             (''offset'', Scalar TInteger [Ge 0], False, Some (VInt 0)),
             (''order_by'', Literal [RStr ''created_at'', RStr ''updated_at''], False,
                Some (VStr ''created_at'')),
             (''tags'', ListOf (Scalar TString []) [], False, Some (VList []))] Forbid"

section \<open>Properties of the route handlers\<close>

lemma map_of_model_dump_pwt: "map_of (Item_model_dump item) ''price_with_tax'' = None"
  by (simp add: Item_model_dump_def)

text \<open>
  Claim C8.  For every integer \<open>item_id\<close>, and so for every one the route accepts
  (those above 2), \<open>read_item\<close> of xiv\_handling\_errors.py raises the
  \<open>HTTPException\<close> with status 404, detail "Item not found" and the header
  \<open>X-Error\<close>: no integer is a key of \<open>items\<close>, whose only key is the string "foo",
  so the branch that returns the item is never taken.
\<close>

theorem read_item_always_404:
  "KInt item_id \<notin> fst ` set items_handling_errors \<and>
   read_item_handling_errors item_id =
     Inl \<lparr>status_code = 404, detail = ''Item not found'',
          headers = [(''X-Error'', ''There goes my error'')]\<rparr>"
  by (simp add: read_item_handling_errors_def items_handling_errors_def)

theorem read_item_always_404_witness:
  "read_item_handling_errors 3 =
     Inl \<lparr>status_code = 404, detail = ''Item not found'',
          headers = [(''X-Error'', ''There goes my error'')]\<rparr>"
  using read_item_always_404 [of 3] by simp

text \<open>
  Claim C9.  For every \<open>Item\<close>, whatever floats its price and tax are, \<open>create_item\<close>
  of iv\_request\_body.py returns a dictionary (it never raises) that has the key
  "price\_with\_tax" exactly when \<open>item.tax\<close> is neither \<open>None\<close> nor \<open>0.0\<close> (which
  \<open>-0.0\<close> equals); when the key is present its value is the float sum
  \<open>item.price + item.tax\<close>; and a tax of \<open>0.0\<close> leaves the key out, as an absent
  tax does.
\<close>

theorem create_item_price_with_tax:
  "\<exists>d. create_item fadd item = Inr d \<and>
     (''price_with_tax'' \<in> fst ` set d \<longleftrightarrow>
        tax item \<noteq> None \<and> tax item \<noteq> Some pos_zero \<and> tax item \<noteq> Some neg_zero) \<and>
     (\<forall>t. tax item = Some t \<and> t \<noteq> pos_zero \<and> t \<noteq> neg_zero \<longrightarrow>
        map_of d ''price_with_tax'' = Some (PFloat (fadd (price item) t))) \<and>
     (tax item = Some pos_zero \<or> tax item = Some neg_zero \<or> tax item = None \<longrightarrow>
        map_of d ''price_with_tax'' = None)"
proof (cases "tax item")
  case None
  then have "create_item fadd item = Inr (Item_model_dump item)"
    by (simp add: create_item_def truthy_opt_float_def)
  with None show ?thesis
    by (simp add: map_of_model_dump_pwt) (simp add: Item_model_dump_def)
next
  case (Some t)
  show ?thesis
  proof (cases "float_eq_zero t")
    case True
    with Some have "create_item fadd item = Inr (Item_model_dump item)"
      by (simp add: create_item_def truthy_opt_float_def)
    with Some True show ?thesis
      by (simp add: map_of_model_dump_pwt float_eq_zero_def) (simp add: Item_model_dump_def)
  next
    case False
    with Some have "create_item fadd item =
        Inr (AList.update ''price_with_tax'' (PFloat (fadd (price item) t))
               (Item_model_dump item))"
      by (simp add: create_item_def truthy_opt_float_def add_opt_float_def)
    with Some False show ?thesis
      by (simp add: update_conv' dom_update float_eq_zero_def)
  qed
qed

text \<open>
  The instance: a price of \<open>10.0\<close> (pattern \<open>0x4024000000000000\<close>) with a tax of
  \<open>2.0\<close> (\<open>0x4000000000000000\<close>), and with a tax of \<open>-0.0\<close>, under every addition.
\<close>

theorem create_item_price_with_tax_witness:
  "\<forall>fadd.
     (\<exists>d. create_item fadd \<lparr>name = ''Foo'', description = None, price = 0x4024000000000000,
                               tax = Some 0x4000000000000000\<rparr> = Inr d \<and>
          map_of d ''price_with_tax'' =
            Some (PFloat (fadd 0x4024000000000000 0x4000000000000000))) \<and>
     (\<exists>d. create_item fadd \<lparr>name = ''Foo'', description = None, price = 0x4024000000000000,
                               tax = Some 0x8000000000000000\<rparr> = Inr d \<and>
          ''price_with_tax'' \<notin> fst ` set d)"
proof
  fix fadd :: "pyfloat \<Rightarrow> pyfloat \<Rightarrow> pyfloat"
  show "(\<exists>d. create_item fadd \<lparr>name = ''Foo'', description = None, price = 0x4024000000000000,
                               tax = Some 0x4000000000000000\<rparr> = Inr d \<and>
          map_of d ''price_with_tax'' =
            Some (PFloat (fadd 0x4024000000000000 0x4000000000000000))) \<and>
     (\<exists>d. create_item fadd \<lparr>name = ''Foo'', description = None, price = 0x4024000000000000,
                               tax = Some 0x8000000000000000\<rparr> = Inr d \<and>
          ''price_with_tax'' \<notin> fst ` set d)"
    using create_item_price_with_tax
            [of fadd "\<lparr>name = ''Foo'', description = None, price = 0x4024000000000000,
                        tax = Some 0x4000000000000000\<rparr>"]
          create_item_price_with_tax
            [of fadd "\<lparr>name = ''Foo'', description = None, price = 0x4024000000000000,
                        tax = Some 0x8000000000000000\<rparr>"]
    by (auto simp: pos_zero_def neg_zero_def)
qed




section \<open>Properties of the validation engine\<close>

text \<open>
  Claim C1.  For the object schema \<open>{name: string (required), price: float (required,
  gt=0), tax: float (optional)}\<close> and the raw input \<open>{"price": -5}\<close>, \<open>validate\<close>
  returns the error outcome with exactly two errors, \<open>MissingRequiredField\<close> at
  \<open>["name"]\<close> and the \<open>gt\<close> \<open>ConstraintViolation\<close> at \<open>["price"]\<close>, both from the one
  call and with no value beside them.  The fields lie one level below the root, so
  the depth limit has to allow one level.
\<close>

theorem fail_slow_example:
  assumes "1 \<le> max_depth cfg"
  shows "validate cfg item_schema (Some (RMap [(''price'', RInt (- 5))])) [] =
           Inl [MissingRequiredField [Name ''name''],
                ConstraintViolation [Name ''price''] (Gt 0) (VFloat (- 5))]"
  using assms
  by (simp add: item_schema_def presence_def coerce_def checked_def check_constraints_def
        check_order_def)

theorem fail_slow_example_witness:
  "1 \<le> max_depth example_config \<and>
   validate example_config item_schema (Some (RMap [(''price'', RInt (- 5))])) [] =
     Inl [MissingRequiredField [Name ''name''],
          ConstraintViolation [Name ''price''] (Gt 0) (VFloat (- 5))]"
  using fail_slow_example [of example_config] by (simp add: example_config_def)

text \<open>
  Claim C4.  For an object schema whose \<open>extra_fields_policy\<close> is \<open>forbid\<close> and a raw
  mapping with a key that is not a declared field, \<open>validate\<close> returns an error
  outcome that contains an \<open>UnexpectedField\<close> error for that key, whatever the
  declared fields of the input are worth.
\<close>

theorem forbid_extra_fields:
  assumes "k \<in> fst ` set kvs" and "k \<notin> fst ` set fs" and "length path \<le> max_depth cfg"
  shows "\<exists>es. validate cfg (Object fs Forbid) (Some (RMap kvs)) path = Inl es \<and>
              UnexpectedField (path @ [Name k]) \<in> set es"
proof -
  have mem: "UnexpectedField (path @ [Name k]) \<in> set (unexpected fs kvs path)"
    using assms(1,2) by (auto simp: unexpected_def)
  then obtain e es where extras: "unexpected fs kvs path = e # es"
    by (cases "unexpected fs kvs path") auto
  show ?thesis
  proof (cases "aggregate (validate_fields cfg fs kvs path)")
    case (Inl es')
    with assms(3) mem show ?thesis by simp
  next
    case (Inr vs)
    with assms(3) mem extras show ?thesis by simp
  qed
qed

theorem forbid_extra_fields_witness:
  "''sort'' \<in> fst ` set [(''limit'', RStr ''10''), (''sort'', RStr ''asc'')] \<and>
   validate example_config FilterParams_schema
       (Some (RMap [(''limit'', RStr ''10''), (''sort'', RStr ''asc'')])) [] =
     Inl [UnexpectedField [Name ''sort'']]"
  using forbid_extra_fields
    [of "''sort''" "[(''limit'', RStr ''10''), (''sort'', RStr ''asc'')]"
        "[(''limit'', Scalar TInteger [Gt 0, Le 100], False, Some (VInt 100)),
          (''offset'', Scalar TInteger [Ge 0], False, Some (VInt 0)),
          (''order_by'', Literal [RStr ''created_at'', RStr ''updated_at''], False,
             Some (VStr ''created_at'')),
          (''tags'', ListOf (Scalar TString []) [], False, Some (VList []))]"
        "[]" example_config]
  by (simp add: example_config_def FilterParams_schema_def coerce_def checked_def
        check_constraints_def check_order_def parse_int_def digit_val_def unexpected_def)

end
